theory Spec2Isabelle
  imports Main "HOL-Library.Word"
begin

unbundle bit_operations_syntax

section \<open>A pager interface for raw Mach devices\<close>

text \<open>
  A shallow embedding of the pager callbacks (\<open>pager_read_page\<close>, \<open>pager_write_page\<close>,
  \<open>pager_unlock_page\<close>, \<open>pager_report_extent\<close>) and of the two entry points
  \<open>dev_stop_paging\<close> and \<open>dev_get_memory_object\<close>.

  The code is written for Mach on the i386: \<open>vm_offset_t\<close>, \<open>vm_size_t\<close>,
  \<open>vm_address_t\<close>, \<open>mach_port_t\<close> and \<open>recnum_t\<close> are 32-bit unsigned integers and
  \<open>int\<close> is a 32-bit signed integer.  All of them are \<open>32 word\<close> here: \<open>+\<close> and \<open>-\<close>
  wrap around, \<open><\<close> and \<open>div\<close> are the unsigned operations, and the signed comparison of two
  \<open>int\<close> variables is written \<open>sint a < sint b\<close>.
\<close>

type_synonym u32 = "32 word"
type_synonym byte = "8 word"

text \<open>Values of \<open>error_t\<close> and \<open>kern_return_t\<close>; only equality with 0 and with the named
  codes is ever used.  The codes are the Hurd's (\<open>0x40000000 + n\<close>, BSD numbering).\<close>

type_synonym error_t = int

definition EIO :: error_t where "EIO = 0x40000005"
definition ENODEV :: error_t where "ENODEV = 0x40000013"
definition ENOSPC :: error_t where "ENOSPC = 0x4000001C"
definition EROFS :: error_t where "EROFS = 0x4000001E"
definition EDQUOT :: error_t where "EDQUOT = 0x40000045"

definition MACH_PORT_NULL :: u32 where "MACH_PORT_NULL = 0"

subsection \<open>What a call can do besides returning\<close>

text \<open>
  \<open>Returns r s\<close>: the call returns \<open>r\<close> and leaves the state \<open>s\<close>.
  \<open>Blocks s\<close>: the calling thread waits on the lock, in the state \<open>s\<close>; only another
  thread releasing the lock could let it go on, and no other thread is followed here.
  \<open>Faults\<close>: the call traps (division by zero, a null bucket pointer handed to libports).
\<close>

datatype ('r, 's) outcome = Returns 'r 's | Blocks 's | Faults

fun outcome_state :: "('r, 's) outcome \<Rightarrow> 's option" where
  "outcome_state (Returns r s) = Some s"
| "outcome_state (Blocks s) = Some s"
| "outcome_state Faults = None"

fun returned :: "('r, 's) outcome \<Rightarrow> 'r option" where
  "returned (Returns r s) = Some r"
| "returned (Blocks s) = None"
| "returned Faults = None"

subsection \<open>Constants the sources take from headers\<close>

text \<open>
  Modelled from the spec: \<open>dev.h\<close> is not among the sources.  The flag masks
  \<open>DEV_READONLY\<close> and \<open>DEV_SERIAL\<close> it defines, and Mach's \<open>vm_page_size\<close>, are parameters
  of every function below; no value is assumed for them.
\<close>

record params =
  vm_page_size :: u32
  DEV_READONLY :: u32
  DEV_SERIAL :: u32

subsection \<open>The device descriptor\<close>

text \<open>
  Modelled from the spec: \<open>struct io_state\<close> (\<open>iostate.h\<close>, not among the sources) with the
  macros \<open>io_state_lock\<close> and \<open>io_state_unlock\<close>.  The spec calls it "a mutual-exclusion
  lock over its mutable fields": taking it while it is held does not return (\<open>None\<close>),
  releasing it makes it free.  Only the lock is kept of the structure.
\<close>

record io_state =
  lock_held :: bool

definition io_state_lock :: "io_state \<Rightarrow> io_state option" where
  "io_state_lock ios = (if lock_held ios then None else Some (ios\<lparr>lock_held := True\<rparr>))"

definition io_state_unlock :: "io_state \<Rightarrow> io_state" where
  "io_state_unlock ios = ios\<lparr>lock_held := False\<rparr>"

text \<open>
  Modelled from the spec: \<open>struct dev\<close> (\<open>dev.h\<close>), with the fields the pager code reads
  and writes.  \<open>pager\<close> and \<open>pager_port_bucket\<close> are pointers: \<open>None\<close> is \<open>NULL\<close>, \<open>Some n\<close>
  the object number \<open>n\<close> of the store below.  \<open>dev_size\<close> is the field \<open>size\<close>.
\<close>

record dev =
  port :: u32
  flags :: u32
  dev_size :: u32
  dev_block_size :: u32
  io_state :: io_state
  pager :: "nat option"
  pager_port_bucket :: "nat option"

text \<open>Modelled from the spec: the macro \<open>dev_is\<close> of \<open>dev.h\<close>, a test of flag bits.\<close>

definition dev_is :: "dev \<Rightarrow> u32 \<Rightarrow> bool" where
  "dev_is d flag = (flags d AND flag \<noteq> 0)"

subsection \<open>The world outside the descriptor\<close>

datatype copy_strategy = MEMORY_OBJECT_COPY_NONE | MEMORY_OBJECT_COPY_CALL | MEMORY_OBJECT_COPY_DELAY

text \<open>Every call that leaves the pager code is recorded, in the order the calls are made.\<close>

datatype event =
    DeviceRead u32 u32 u32 u32
  | DeviceWrite u32 u32 u32 u32 u32
  | VmDeallocate u32 u32
  | CreateBucket nat
  | ThreadFork nat
  | PagerCreate nat nat bool copy_strategy
  | PortRef nat
  | PortDeref nat
  | GetPort nat
  | InsertRight u32
  | ChangeAttributes nat bool copy_strategy bool
  | Sleep nat
  | PagerShutdown nat

text \<open>One pager of libpager: its caching attributes, its reference count, and the receive
  right that \<open>pager_get_port\<close> hands out.\<close>

record pager_info =
  may_cache :: bool
  copy :: copy_strategy
  refcnt :: nat
  has_sendrights :: bool
  port_right :: u32

text \<open>
  The device, the kernel and the libraries.  The first five fields are how the
  environment answers: what \<open>device_read\<close> and \<open>device_write\<close> reply to a request (error
  code, buffer, byte count), what \<open>mach_port_insert_right\<close> returns, whether the next
  \<open>pager_create\<close> yields no pager, and which ports of each bucket exist after one second of
  sleep.  A buffer is the memory reached through the returned pointer, indexed by the
  32-bit offset from it.
\<close>

record world =
  device_read_reply :: "u32 \<Rightarrow> u32 \<Rightarrow> u32 \<Rightarrow> u32 \<Rightarrow> error_t \<times> (u32 \<Rightarrow> byte) \<times> u32"
  device_write_reply :: "u32 \<Rightarrow> u32 \<Rightarrow> u32 \<Rightarrow> u32 \<Rightarrow> u32 \<Rightarrow> error_t \<times> u32"
  insert_right_reply :: "u32 \<Rightarrow> error_t"
  create_fails :: "nat \<Rightarrow> bool"
  new_port_right :: "nat \<Rightarrow> u32"
  sleep_effect :: "(nat \<Rightarrow> nat list) \<Rightarrow> nat \<Rightarrow> nat list"
  buckets :: "nat \<Rightarrow> nat list"
  bucket_count :: nat
  pagers :: "nat \<Rightarrow> pager_info"
  pager_count :: nat
  trace :: "event list"

definition emit :: "event \<Rightarrow> world \<Rightarrow> world" where
  "emit e w = w\<lparr>trace := trace w @ [e]\<rparr>"

subsection \<open>Device and memory primitives\<close>

definition device_read :: "u32 \<Rightarrow> u32 \<Rightarrow> u32 \<Rightarrow> u32 \<Rightarrow> world \<Rightarrow> (error_t \<times> (u32 \<Rightarrow> byte) \<times> u32) \<times> world" where
  "device_read p mode recnum bytes_wanted w =
     (device_read_reply w p mode recnum bytes_wanted, emit (DeviceRead p mode recnum bytes_wanted) w)"

definition device_write :: "u32 \<Rightarrow> u32 \<Rightarrow> u32 \<Rightarrow> u32 \<Rightarrow> u32 \<Rightarrow> world \<Rightarrow> (error_t \<times> u32) \<times> world" where
  "device_write p mode recnum data count w =
     (device_write_reply w p mode recnum data count, emit (DeviceWrite p mode recnum data count) w)"

definition vm_deallocate :: "u32 \<Rightarrow> u32 \<Rightarrow> world \<Rightarrow> world" where
  "vm_deallocate addr len w = emit (VmDeallocate addr len) w"

text \<open>\<open>bzero (b + off, n)\<close>: the \<open>n\<close> bytes from offset \<open>off\<close> on become zero.\<close>

definition bzero :: "(u32 \<Rightarrow> byte) \<Rightarrow> u32 \<Rightarrow> u32 \<Rightarrow> (u32 \<Rightarrow> byte)" where
  "bzero b off n = (\<lambda>i. if i - off < n then 0 else b i)"

subsection \<open>Pager library callbacks\<close>

text \<open>
  \<open>pager_read_page\<close> returns the error code, the buffer \<open>*buf\<close> and \<open>*writelock\<close>.
  \<open>want\<close> is an \<open>int\<close>; \<open>page + want > dev->size\<close> and \<open>want < vm_page_size\<close> are unsigned
  comparisons (the other operand is unsigned), \<open>read < want\<close> is a signed one.
\<close>

definition pager_read_page ::
  "params \<Rightarrow> dev \<Rightarrow> u32 \<Rightarrow> world \<Rightarrow> (error_t \<times> (u32 \<Rightarrow> byte) \<times> u32, dev \<times> world) outcome" where
  "pager_read_page cfg d page w =
     (let want = vm_page_size cfg;
          want = (if page + want > dev_size d then dev_size d - page else want)
      in if dev_block_size d = 0 then Faults
         else
           let ((err, buf, read), w1) = device_read (port d) 0 (page div dev_block_size d) want w;
               buf = (if err = 0 \<and> want < vm_page_size cfg
                      then bzero buf want (vm_page_size cfg - want) else buf);
               writelock = flags d AND DEV_READONLY cfg
           in if err \<noteq> 0 \<or> sint read < sint want
              then Returns (EIO, buf, writelock) (d, w1)
              else Returns (0, buf, writelock) (d, w1))"

definition pager_write_page ::
  "params \<Rightarrow> dev \<Rightarrow> u32 \<Rightarrow> u32 \<Rightarrow> world \<Rightarrow> (error_t, dev \<times> world) outcome" where
  "pager_write_page cfg d page buf w =
     (if flags d AND DEV_READONLY cfg \<noteq> 0
      then Returns EROFS (d, w)
      else
        let want = vm_page_size cfg;
            want = (if page + want > dev_size d then dev_size d - page else want)
        in if dev_block_size d = 0 then Faults
           else
             let ((err, written), w1) = device_write (port d) 0 (page div dev_block_size d) buf want w;
                 w2 = vm_deallocate buf (vm_page_size cfg) w1
             in if err \<noteq> 0 \<or> sint written < sint want
                then Returns EIO (d, w2)
                else Returns 0 (d, w2))"

definition pager_unlock_page ::
  "params \<Rightarrow> dev \<Rightarrow> u32 \<Rightarrow> world \<Rightarrow> (error_t, dev \<times> world) outcome" where
  "pager_unlock_page cfg d address w =
     (if flags d AND DEV_READONLY cfg \<noteq> 0
      then Returns EROFS (d, w)
      else Returns 0 (d, w))"

text \<open>\<open>pager_report_extent\<close> returns the error code, \<open>*offset\<close> and \<open>*size\<close>.\<close>

definition pager_report_extent ::
  "dev \<Rightarrow> world \<Rightarrow> (error_t \<times> u32 \<times> u32, dev \<times> world) outcome" where
  "pager_report_extent d w = Returns (0, 0, dev_size d) (d, w)"

subsection \<open>libports and libpager, as far as the pager code calls them\<close>

text \<open>
  Modelled from the spec: libports and libpager belong to the repository but are not
  among the sources.  The spec's Request Group "supports counting live endpoints,
  iterating them to apply a function"; the Backing-Object "exposes operations to change
  caching policy and to shut itself down" and is reference-counted.  A bucket is the
  list of the pagers whose ports are in it.
\<close>

definition ports_create_bucket :: "world \<Rightarrow> nat \<times> world" where
  "ports_create_bucket w =
     (let b = bucket_count w
      in (b, emit (CreateBucket b) (w\<lparr>bucket_count := Suc b, buckets := (buckets w)(b := [])\<rparr>)))"

definition ports_count_bucket :: "nat \<Rightarrow> world \<Rightarrow> nat" where
  "ports_count_bucket b w = length (buckets w b)"

text \<open>\<open>ports_bucket_iterate\<close> calls the function on each port of the bucket and stops at
  the first error.\<close>

fun iterate_ports :: "(nat \<Rightarrow> world \<Rightarrow> error_t \<times> world) \<Rightarrow> nat list \<Rightarrow> world \<Rightarrow> error_t \<times> world" where
  "iterate_ports f [] w = (0, w)"
| "iterate_ports f (p # ps) w =
     (let (err, w1) = f p w in if err \<noteq> 0 then (err, w1) else iterate_ports f ps w1)"

definition ports_bucket_iterate :: "nat \<Rightarrow> (nat \<Rightarrow> world \<Rightarrow> error_t \<times> world) \<Rightarrow> world \<Rightarrow> error_t \<times> world" where
  "ports_bucket_iterate b f w = iterate_ports f (buckets w b) w"

definition ports_port_ref :: "nat \<Rightarrow> world \<Rightarrow> world" where
  "ports_port_ref p w =
     emit (PortRef p) (w\<lparr>pagers := (pagers w)(p := (pagers w p)\<lparr>refcnt := Suc (refcnt (pagers w p))\<rparr>)\<rparr>)"

text \<open>Dropping a reference that is not held fails libports' assertion (\<open>None\<close>).\<close>

definition ports_port_deref :: "nat \<Rightarrow> world \<Rightarrow> world option" where
  "ports_port_deref p w =
     (if refcnt (pagers w p) = 0 then None
      else Some (emit (PortDeref p)
             (w\<lparr>pagers := (pagers w)(p := (pagers w p)\<lparr>refcnt := refcnt (pagers w p) - 1\<rparr>)\<rparr>)))"

definition pager_create :: "nat \<Rightarrow> bool \<Rightarrow> copy_strategy \<Rightarrow> world \<Rightarrow> nat option \<times> world" where
  "pager_create b mc cs w =
     (let p = pager_count w
      in if create_fails w p then (None, w)
         else (Some p,
               emit (PagerCreate p b mc cs)
                 (w\<lparr>pager_count := Suc p,
                    pagers := (pagers w)(p := \<lparr>may_cache = mc, copy = cs, refcnt = 1,
                                               has_sendrights = False, port_right = new_port_right w p\<rparr>),
                    buckets := (buckets w)(b := buckets w b @ [p])\<rparr>)))"

text \<open>\<open>pager_get_port\<close>: the first send right made for a port holds a reference of its own.\<close>

definition pager_get_port :: "nat \<Rightarrow> world \<Rightarrow> u32 \<times> world" where
  "pager_get_port p w =
     (port_right (pagers w p),
      emit (GetPort p)
        (if has_sendrights (pagers w p) then w
         else w\<lparr>pagers := (pagers w)(p := (pagers w p)\<lparr>refcnt := Suc (refcnt (pagers w p)),
                                                       has_sendrights := True\<rparr>)\<rparr>))"

definition pager_change_attributes :: "nat \<Rightarrow> bool \<Rightarrow> copy_strategy \<Rightarrow> bool \<Rightarrow> world \<Rightarrow> world" where
  "pager_change_attributes p mc cs wait w =
     emit (ChangeAttributes p mc cs wait)
       (w\<lparr>pagers := (pagers w)(p := (pagers w p)\<lparr>may_cache := mc, copy := cs\<rparr>)\<rparr>)"

definition pager_shutdown :: "nat \<Rightarrow> world \<Rightarrow> world" where
  "pager_shutdown p w = emit (PagerShutdown p) w"

definition mach_port_insert_right :: "u32 \<Rightarrow> world \<Rightarrow> error_t \<times> world" where
  "mach_port_insert_right name w = (insert_right_reply w name, emit (InsertRight name) w)"

definition cthread_fork_detach :: "nat \<Rightarrow> world \<Rightarrow> world" where
  "cthread_fork_detach b w = emit (ThreadFork b) w"

text \<open>\<open>sleep (n)\<close>: while the thread sleeps the kernel may take ports out of the buckets.\<close>

definition sleep :: "nat \<Rightarrow> world \<Rightarrow> world" where
  "sleep n w = emit (Sleep n) (w\<lparr>buckets := sleep_effect w (buckets w)\<rparr>)"

subsection \<open>Starting and stopping paging\<close>

definition init_dev_paging :: "dev \<Rightarrow> world \<Rightarrow> dev \<times> world" where
  "init_dev_paging d w =
     (let (b, w1) = ports_create_bucket w;
          d1 = d\<lparr>pager_port_bucket := Some b\<rparr>
      in (d1, cthread_fork_detach b w1))"

text \<open>The two functions nested in \<open>dev_stop_paging\<close>.\<close>

definition block_cache :: "nat \<Rightarrow> world \<Rightarrow> error_t \<times> world" where
  "block_cache p w = (0, pager_change_attributes p False MEMORY_OBJECT_COPY_DELAY True w)"

definition enable_cache :: "nat \<Rightarrow> world \<Rightarrow> error_t \<times> world" where
  "enable_cache p w = (0, pager_change_attributes p True MEMORY_OBJECT_COPY_DELAY False w)"

text \<open>
  \<open>dev_stop_paging\<close> returns \<open>success\<close>.  Its last call before \<open>return\<close> is
  \<open>io_state_lock\<close>, as in the source (line 218), not \<open>io_state_unlock\<close>: the thread asks
  for the lock that it has held itself since line 169.
\<close>

definition dev_stop_paging :: "dev \<Rightarrow> u32 \<Rightarrow> world \<Rightarrow> (u32, dev \<times> world) outcome" where
  "dev_stop_paging d nosync w =
     (let success = 1 in
      case io_state_lock (io_state d) of
        None \<Rightarrow> Blocks (d, w)
      | Some ios \<Rightarrow>
          let d = d\<lparr>io_state := ios\<rparr> in
          case (case pager d of
                  None \<Rightarrow> Some (success, w)
                | Some pg \<Rightarrow>
                    (case pager_port_bucket d of
                       None \<Rightarrow> None
                     | Some b \<Rightarrow>
                         let num_pagers = ports_count_bucket b w;
                             (success, w) =
                               (if num_pagers > 0 \<and> nosync = 0
                                then
                                  let (e, w) = ports_bucket_iterate b block_cache w;
                                      w = sleep 1 w;
                                      num_pagers = ports_count_bucket b w
                                  in if num_pagers > 0
                                     then let (e, w) = ports_bucket_iterate b enable_cache w
                                          in (0, w)
                                     else (success, w)
                                else (success, w));
                             w = (if success \<noteq> 0 \<and> nosync = 0 then pager_shutdown pg w else w)
                         in Some (success, w))) of
            None \<Rightarrow> Faults
          | Some (success, w) \<Rightarrow>
              let d = (if success \<noteq> 0 then d\<lparr>pager := None\<rparr> else d) in
              case io_state_lock (io_state d) of
                None \<Rightarrow> Blocks (d, w)
              | Some ios \<Rightarrow> Returns success (d\<lparr>io_state := ios\<rparr>, w))"

text \<open>\<open>dev_get_memory_object\<close> returns the error code and \<open>*memobj\<close> (\<open>None\<close> when it is
  not written).\<close>

definition dev_get_memory_object ::
  "params \<Rightarrow> dev \<Rightarrow> world \<Rightarrow> (error_t \<times> u32 option, dev \<times> world) outcome" where
  "dev_get_memory_object cfg d w =
     (if dev_is d (DEV_SERIAL cfg) then Returns (ENODEV, None) (d, w)
      else
        case io_state_lock (io_state d) of
          None \<Rightarrow> Blocks (d, w)
        | Some ios \<Rightarrow>
            let d = d\<lparr>io_state := ios\<rparr>;
                (d, w) = (if pager_port_bucket d = None then init_dev_paging d w else (d, w))
            in case pager_port_bucket d of
                 None \<Rightarrow> Faults
               | Some b \<Rightarrow>
                   let (d, w) =
                         (case pager d of
                            None \<Rightarrow>
                              let (pg, w) = pager_create b True MEMORY_OBJECT_COPY_DELAY w
                              in (d\<lparr>pager := pg\<rparr>, w)
                          | Some pg \<Rightarrow> (d, ports_port_ref pg w));
                       d = d\<lparr>io_state := io_state_unlock (io_state d)\<rparr>
                   in case pager d of
                        None \<Rightarrow> Returns (ENODEV, None) (d, w)
                      | Some pg \<Rightarrow>
                          let (memobj, w) = pager_get_port pg w
                          in case ports_port_deref pg w of
                               None \<Rightarrow> Faults
                             | Some w \<Rightarrow>
                                 if memobj \<noteq> MACH_PORT_NULL
                                 then let (kr, w) = mach_port_insert_right memobj w
                                      in Returns (kr, Some memobj) (d, w)
                                 else Returns (0, Some memobj) (d, w))"

subsection \<open>Concrete devices and worlds\<close>

text \<open>A machine with 4096-byte pages; a disk of two and a half pages in 512-byte blocks that
  nobody has asked a memory object for; a world whose device transfers whatever is asked.\<close>

definition ex_params :: params where
  "ex_params = \<lparr>vm_page_size = 4096, DEV_READONLY = 1, DEV_SERIAL = 8\<rparr>"

definition ex_dev :: dev where
  "ex_dev = \<lparr>port = 7, flags = 0, dev_size = 10240, dev_block_size = 512,
             io_state = \<lparr>lock_held = False\<rparr>, pager = None, pager_port_bucket = None\<rparr>"

definition ex_world :: world where
  "ex_world =
     \<lparr>device_read_reply = (\<lambda>p m r n. (0, (\<lambda>i. 171), n)),
      device_write_reply = (\<lambda>p m r b n. (0, n)),
      insert_right_reply = (\<lambda>n. 0),
      create_fails = (\<lambda>n. False),
      new_port_right = (\<lambda>n. 100 + of_nat n),
      sleep_effect = (\<lambda>bs. bs),
      buckets = (\<lambda>b. []),
      bucket_count = 0,
      pagers = (\<lambda>p. \<lparr>may_cache = True, copy = MEMORY_OBJECT_COPY_DELAY, refcnt = 0,
                       has_sendrights = False, port_right = 0\<rparr>),
      pager_count = 0,
      trace = []\<rparr>"

text \<open>The same disk opened read-only, and a serial line.\<close>

definition ex_ro_dev :: dev where
  "ex_ro_dev = ex_dev\<lparr>flags := 1\<rparr>"

definition ex_serial_dev :: dev where
  "ex_serial_dev = ex_dev\<lparr>flags := 8\<rparr>"

text \<open>A device that fails every transfer with \<open>D_IO_ERROR\<close> (2500) and yet reports the
  full count.\<close>

definition ex_err_world :: world where
  "ex_err_world =
     ex_world\<lparr>device_read_reply := (\<lambda>p m r n. (2500, (\<lambda>i. 0), n)),
              device_write_reply := (\<lambda>p m r b n. (2500, n))\<rparr>"

text \<open>A disk of 4 GiB less one block: its last page, at offset \<open>0xFFFFF000\<close>, holds
  \<open>0xE00\<close> bytes.\<close>

definition ex_big_dev :: dev where
  "ex_big_dev = ex_dev\<lparr>dev_size := 0xFFFFFE00\<rparr>"

text \<open>The disk and the world after one \<open>dev_get_memory_object\<close>, after a second one, and
  after the only port has left the bucket.\<close>

definition ex_mapped_dev :: dev where
  "ex_mapped_dev = ex_dev\<lparr>pager := Some 0, pager_port_bucket := Some 0\<rparr>"

definition ex_world1 :: world where
  "ex_world1 =
     ex_world\<lparr>buckets := (\<lambda>b. [])(0 := [0]),
              bucket_count := 1,
              pagers := (pagers ex_world)
                          (0 := \<lparr>may_cache = True, copy = MEMORY_OBJECT_COPY_DELAY, refcnt = 1,
                                 has_sendrights = True, port_right = 100\<rparr>),
              pager_count := 1,
              trace := [CreateBucket 0, ThreadFork 0, PagerCreate 0 0 True MEMORY_OBJECT_COPY_DELAY,
                        GetPort 0, PortDeref 0, InsertRight 100]\<rparr>"

definition ex_world2 :: world where
  "ex_world2 = ex_world1\<lparr>trace := trace ex_world1 @ [PortRef 0, GetPort 0, PortDeref 0, InsertRight 100]\<rparr>"

definition ex_idle_world :: world where
  "ex_idle_world = ex_world1\<lparr>buckets := (\<lambda>b. [])\<rparr>"

section \<open>Auxiliary facts\<close>

text \<open>The byte count of a transfer, when \<open>page + vm_page_size\<close> stays within 32 bits.\<close>

lemma want_min:
  fixes page ps sz :: u32
  assumes "page < sz" and "unat page + unat ps < 2 ^ 32"
  shows "unat (if page + ps > sz then sz - page else ps) = min (unat ps) (unat sz - unat page)"
proof -
  have a: "unat (page + ps) = unat page + unat ps"
    using assms(2) by (simp add: unat_add_lem [THEN iffD1])
  have b: "unat (sz - page) = unat sz - unat page"
    using assms(1) by (simp add: unat_sub)
  have c: "unat page < unat sz"
    using assms(1) by (simp add: word_less_nat_alt)
  show ?thesis
    using a b c by (auto simp: word_less_nat_alt min_def)
qed

text \<open>Iterating a change of attributes over a bucket changes every pager in it, and never
  stops early.\<close>

lemma iterate_change:
  "iterate_ports (\<lambda>p w. (0, pager_change_attributes p mc cs wt w)) ps w =
     (0, w\<lparr>pagers := (\<lambda>q. if q \<in> set ps then (pagers w q)\<lparr>may_cache := mc, copy := cs\<rparr> else pagers w q),
          trace := trace w @ map (\<lambda>p. ChangeAttributes p mc cs wt) ps\<rparr>)"
proof (induction ps arbitrary: w)
  case Nil
  show ?case by simp
next
  case (Cons p ps)
  have "iterate_ports (\<lambda>p w. (0, pager_change_attributes p mc cs wt w)) (p # ps) w =
        iterate_ports (\<lambda>p w. (0, pager_change_attributes p mc cs wt w)) ps
          (pager_change_attributes p mc cs wt w)"
    by simp
  also note Cons.IH
  finally show ?case
    by (simp add: pager_change_attributes_def emit_def fun_eq_iff)
qed

lemma block_cache_all:
  "ports_bucket_iterate b block_cache w =
     (0, w\<lparr>pagers := (\<lambda>q. if q \<in> set (buckets w b)
                          then (pagers w q)\<lparr>may_cache := False, copy := MEMORY_OBJECT_COPY_DELAY\<rparr>
                          else pagers w q),
          trace := trace w @ map (\<lambda>p. ChangeAttributes p False MEMORY_OBJECT_COPY_DELAY True) (buckets w b)\<rparr>)"
  unfolding ports_bucket_iterate_def block_cache_def by (rule iterate_change)

lemma enable_cache_all:
  "ports_bucket_iterate b enable_cache w =
     (0, w\<lparr>pagers := (\<lambda>q. if q \<in> set (buckets w b)
                          then (pagers w q)\<lparr>may_cache := True, copy := MEMORY_OBJECT_COPY_DELAY\<rparr>
                          else pagers w q),
          trace := trace w @ map (\<lambda>p. ChangeAttributes p True MEMORY_OBJECT_COPY_DELAY False) (buckets w b)\<rparr>)"
  unfolding ports_bucket_iterate_def enable_cache_def by (rule iterate_change)

text \<open>What a call of \<open>dev_get_memory_object\<close> that hands out a memory object leaves behind,
  and what such a call does when the pager exists already.\<close>

lemma get_memory_object_leaves:
  assumes "dev_get_memory_object cfg d w = Returns (e, Some m) (d1, w1)"
  shows "\<not> dev_is d1 (DEV_SERIAL cfg) \<and> \<not> lock_held (io_state d1)
       \<and> (\<exists>p b. pager d1 = Some p \<and> pager_port_bucket d1 = Some b \<and> port_right (pagers w1 p) = m
              \<and> (pager d = None \<longrightarrow> p = pager_count w \<and> pager_count w1 = Suc (pager_count w))
              \<and> (pager d \<noteq> None \<longrightarrow> pager d = Some p \<and> pager_count w1 = pager_count w)
              \<and> bucket_count w1 = (if pager_port_bucket d = None then Suc (bucket_count w) else bucket_count w))"
  using assms
  by (auto simp: dev_get_memory_object_def io_state_lock_def io_state_unlock_def Let_def dev_is_def
        init_dev_paging_def ports_create_bucket_def cthread_fork_detach_def pager_create_def
        ports_port_ref_def pager_get_port_def ports_port_deref_def mach_port_insert_right_def emit_def
      split: if_splits option.splits prod.splits)

lemma get_memory_object_existing:
  assumes "\<not> dev_is d (DEV_SERIAL cfg)" and "\<not> lock_held (io_state d)"
    and "pager d = Some p" and "pager_port_bucket d = Some b"
    and "dev_get_memory_object cfg d w = Returns (e, Some m) (d2, w2)"
  shows "d2 = d \<and> m = port_right (pagers w p)
       \<and> trace w2 = trace w @ PortRef p # GetPort p # PortDeref p #
                       (if m = MACH_PORT_NULL then [] else [InsertRight m])
       \<and> pager_count w2 = pager_count w \<and> bucket_count w2 = bucket_count w \<and> buckets w2 = buckets w"
  using assms
  by (auto simp: dev_get_memory_object_def io_state_lock_def io_state_unlock_def Let_def
        ports_port_ref_def pager_get_port_def ports_port_deref_def mach_port_insert_right_def emit_def
      split: if_splits option.splits prod.splits)

lemma ex_first_call:
  "dev_get_memory_object ex_params ex_dev ex_world = Returns (0, Some 100) (ex_mapped_dev, ex_world1)"
  by (simp add: dev_get_memory_object_def io_state_lock_def io_state_unlock_def Let_def dev_is_def
        init_dev_paging_def ports_create_bucket_def cthread_fork_detach_def pager_create_def
        pager_get_port_def ports_port_deref_def mach_port_insert_right_def emit_def
        ex_params_def ex_dev_def ex_world_def ex_mapped_dev_def ex_world1_def MACH_PORT_NULL_def)

lemma ex_second_call:
  "dev_get_memory_object ex_params ex_mapped_dev ex_world1 = Returns (0, Some 100) (ex_mapped_dev, ex_world2)"
  by (simp add: dev_get_memory_object_def io_state_lock_def io_state_unlock_def Let_def dev_is_def
        ports_port_ref_def pager_get_port_def ports_port_deref_def mach_port_insert_right_def emit_def
        ex_params_def ex_dev_def ex_world_def ex_mapped_dev_def ex_world1_def ex_world2_def
        MACH_PORT_NULL_def)

section \<open>Page output\<close>

text \<open>
  C1.  The claim: on a device whose flags mark it read-only, \<open>write_page\<close> fails with
  EROFS, issues no device write, and releases the caller's page buffer before returning.
  The code returns EROFS at once (line 74): the world is left as it was, so there is no
  device write, but no \<open>vm_deallocate\<close> either; the buffer is not released, although the
  comment above the function asks for it and the other branch does it.
\<close>

theorem write_page_readonly_leaves_buffer:
  "flags d AND DEV_READONLY cfg \<noteq> 0 \<Longrightarrow>
   pager_write_page cfg d page buf w = Returns EROFS (d, w)"
  by (simp add: pager_write_page_def)

theorem write_page_readonly_leaves_buffer_witness:
  "pager_write_page ex_params ex_ro_dev 0 0x5000 ex_world = Returns EROFS (ex_ro_dev, ex_world)
   \<and> trace ex_world = []"
  using write_page_readonly_leaves_buffer [of ex_ro_dev ex_params 0 "0x5000" ex_world]
  by (simp add: ex_params_def ex_ro_dev_def ex_dev_def ex_world_def)

text \<open>
  C3, as amended.  On a writable device with a block size other than 0, at an offset
  \<open>page < size\<close> for which \<open>page + vm_page_size\<close> stays within 32 bits, \<open>write_page\<close>
  makes exactly two calls: one \<open>device_write\<close> of \<open>n = min vm_page_size (size - page)\<close>
  bytes at block \<open>page div block_size\<close>, then the \<open>vm_deallocate\<close> of the buffer.  It
  returns EIO if and only if the device reports an error or a count below \<open>n\<close>, and 0
  otherwise.
\<close>

theorem write_page_writable:
  assumes "flags d AND DEV_READONLY cfg = 0" and "dev_block_size d \<noteq> 0"
    and "page < dev_size d" and "unat page + unat (vm_page_size cfg) < 2 ^ 32"
  shows "\<exists>n err written.
           unat n = min (unat (vm_page_size cfg)) (unat (dev_size d) - unat page)
         \<and> unat (page div dev_block_size d) = unat page div unat (dev_block_size d)
         \<and> device_write_reply w (port d) 0 (page div dev_block_size d) buf n = (err, written)
         \<and> pager_write_page cfg d page buf w =
             Returns (if err \<noteq> 0 \<or> sint written < sint n then EIO else 0)
               (d, w\<lparr>trace := trace w @ [DeviceWrite (port d) 0 (page div dev_block_size d) buf n,
                                          VmDeallocate buf (vm_page_size cfg)]\<rparr>)"
proof -
  define n where "n = (if page + vm_page_size cfg > dev_size d then dev_size d - page else vm_page_size cfg)"
  obtain err written where r: "device_write_reply w (port d) 0 (page div dev_block_size d) buf n = (err, written)"
    by (cases "device_write_reply w (port d) 0 (page div dev_block_size d) buf n")
  have m: "unat n = min (unat (vm_page_size cfg)) (unat (dev_size d) - unat page)"
    unfolding n_def using assms(3,4) by (rule want_min)
  have "pager_write_page cfg d page buf w =
             Returns (if err \<noteq> 0 \<or> sint written < sint n then EIO else 0)
               (d, w\<lparr>trace := trace w @ [DeviceWrite (port d) 0 (page div dev_block_size d) buf n,
                                          VmDeallocate buf (vm_page_size cfg)]\<rparr>)"
    using assms(1,2) r
    by (simp add: pager_write_page_def device_write_def vm_deallocate_def emit_def n_def [symmetric] Let_def)
  with m r show ?thesis by (auto simp: unat_div)
qed

text \<open>The last, partial page of the small disk: 2048 bytes are written at block 16.\<close>

theorem write_page_writable_witness:
  "\<exists>n. unat n = 2048
     \<and> pager_write_page ex_params ex_dev 8192 0x5000 ex_world =
         Returns 0 (ex_dev, ex_world\<lparr>trace := [DeviceWrite 7 0 16 0x5000 n, VmDeallocate 0x5000 4096]\<rparr>)"
  using write_page_writable [of ex_dev ex_params 8192 ex_world "0x5000"]
  by (auto simp add: ex_params_def ex_dev_def ex_world_def)

text \<open>The claim C3 as it stands (EIO if and only if the device reports fewer bytes than
  asked) fails: this device reports all 4096 bytes written, with an error code, and the
  page-out fails with EIO.\<close>

theorem write_page_error_full_count:
  "returned (pager_write_page ex_params ex_dev 0 0x5000 ex_err_world) = Some EIO
   \<and> device_write_reply ex_err_world 7 0 0 0x5000 4096 = (2500, 4096)
   \<and> \<not> sint (4096 :: u32) < sint (4096 :: u32)"
  by (simp add: pager_write_page_def device_write_def vm_deallocate_def emit_def Let_def
      ex_params_def ex_dev_def ex_world_def ex_err_world_def)

section \<open>Page input\<close>

text \<open>
  Page input at every offset but the last page of the 32-bit range: if
  \<open>page < size\<close> and \<open>page + vm_page_size\<close> stays within 32 bits, a successful
  \<open>read_page\<close> returns the device's buffer for block \<open>page div block_size\<close> with the bytes
  from \<open>n = min vm_page_size (size - page)\<close> up to the page size zeroed, and \<open>writelock\<close> is
  the read-only bit of the flags.
\<close>

lemma read_page_within_range:
  assumes "dev_block_size d \<noteq> 0"
    and "page < dev_size d" and "unat page + unat (vm_page_size cfg) < 2 ^ 32"
    and "pager_read_page cfg d page w = Returns (0, buf, writelock) s"
  shows "\<exists>n dbuf cnt.
           unat n = min (unat (vm_page_size cfg)) (unat (dev_size d) - unat page)
         \<and> unat (page div dev_block_size d) = unat page div unat (dev_block_size d)
         \<and> device_read_reply w (port d) 0 (page div dev_block_size d) n = (0, dbuf, cnt)
         \<and> (\<forall>i. i < n \<longrightarrow> buf i = dbuf i)
         \<and> (\<forall>i. n \<le> i \<and> i < vm_page_size cfg \<longrightarrow> buf i = 0)
         \<and> writelock = flags d AND DEV_READONLY cfg"
proof -
  define n where "n = (if page + vm_page_size cfg > dev_size d then dev_size d - page else vm_page_size cfg)"
  obtain err dbuf cnt where r: "device_read_reply w (port d) 0 (page div dev_block_size d) n = (err, dbuf, cnt)"
    by (cases "device_read_reply w (port d) 0 (page div dev_block_size d) n")
  have m: "unat n = min (unat (vm_page_size cfg)) (unat (dev_size d) - unat page)"
    unfolding n_def using assms(2,3) by (rule want_min)
  have le: "n \<le> vm_page_size cfg"
    using m by (simp add: word_le_nat_alt)
  have e: "err = 0" and b: "buf = (if n < vm_page_size cfg then bzero dbuf n (vm_page_size cfg - n) else dbuf)"
    and l: "writelock = flags d AND DEV_READONLY cfg"
    using assms(1,4) r
    by (auto simp add: pager_read_page_def device_read_def emit_def n_def [symmetric] Let_def EIO_def split: if_splits)
  have z: "\<And>i. n \<le> i \<Longrightarrow> i < vm_page_size cfg \<Longrightarrow> i - n < vm_page_size cfg - n"
    by unat_arith
  have k: "\<And>i. i < n \<Longrightarrow> \<not> i - n < vm_page_size cfg - n"
    using le by unat_arith
  show ?thesis
    using m r e l le z k by (auto simp: b bzero_def unat_div)
qed

text \<open>
  C4.  The claim: for every page-aligned offset \<open>p < size\<close> a successful \<open>read_page\<close>
  returns a page whose first \<open>min vm_page_size (size - p)\<close> bytes are the device's and
  whose other bytes are zero.  The code tests \<open>page + want > dev->size\<close> in 32 bits.
  Whenever that sum, as computed, is not above the size, a whole page is asked of the device
  and the buffer is handed on as the device filled it, nothing zeroed.  For the last page
  of the 32-bit range the sum wraps to 0, so this happens although the page is partial.
\<close>

theorem read_page_whole_when_sum_small:
  assumes "dev_block_size d \<noteq> 0" and "\<not> page + vm_page_size cfg > dev_size d"
    and "device_read_reply w (port d) 0 (page div dev_block_size d) (vm_page_size cfg) = (0, dbuf, cnt)"
    and "\<not> sint cnt < sint (vm_page_size cfg)"
  shows "pager_read_page cfg d page w =
           Returns (0, dbuf, flags d AND DEV_READONLY cfg)
             (d, w\<lparr>trace := trace w @ [DeviceRead (port d) 0 (page div dev_block_size d) (vm_page_size cfg)]\<rparr>)"
  using assms
  by (simp add: pager_read_page_def device_read_def emit_def Let_def)

text \<open>The disk of 4 GiB less one block, its last page: \<open>0xE00\<close> bytes remain, 4096 are
  asked for, and byte \<open>0xE00\<close> of the page returned is the device's \<open>0xAB\<close>, not 0.\<close>

theorem read_page_whole_when_sum_small_witness:
  "(0xFFFFF000 :: u32) < dev_size ex_big_dev
   \<and> unat (dev_size ex_big_dev) - unat (0xFFFFF000 :: u32) = 0xE00
   \<and> (0xFFFFF000 :: u32) + vm_page_size ex_params = 0
   \<and> pager_read_page ex_params ex_big_dev 0xFFFFF000 ex_world =
        Returns (0, (\<lambda>i. 0xAB), 0) (ex_big_dev, ex_world\<lparr>trace := [DeviceRead 7 0 0x7FFFF8 4096]\<rparr>)"
  using read_page_whole_when_sum_small [of ex_big_dev "0xFFFFF000" ex_params ex_world "\<lambda>i. 0xAB" 4096]
  by (simp add: ex_params_def ex_big_dev_def ex_dev_def ex_world_def)

section \<open>Errors of page input and output\<close>

text \<open>
  C7.  Whatever the device answers, \<open>read_page\<close> returns 0 or EIO, and \<open>write_page\<close>
  returns 0 or EIO once it has reached the device (its only other result, EROFS, is
  returned for a read-only device before any device call, with the state untouched).  A
  device that answers with an error code \<open>k\<close>, whichever it is, makes both fail with EIO:
  \<open>k\<close> itself never comes out.  EIO is one of the three permitted kinds EIO, EDQUOT, ENOSPC.
\<close>

theorem page_io_errors_are_EIO:
  "(pager_read_page cfg d page w = Returns (e, b, l) s \<longrightarrow> e = 0 \<or> e = EIO)
 \<and> (pager_write_page cfg d page buf w = Returns e' s' \<longrightarrow>
        e' = 0 \<or> e' = EIO \<or> (e' = EROFS \<and> flags d AND DEV_READONLY cfg \<noteq> 0 \<and> s' = (d, w)))
 \<and> (k \<noteq> 0 \<and> dev_block_size d \<noteq> 0
      \<and> (\<forall>n. fst (device_read_reply w (port d) 0 (page div dev_block_size d) n) = k)
      \<longrightarrow> map_option fst (returned (pager_read_page cfg d page w)) = Some EIO)
 \<and> (k \<noteq> 0 \<and> dev_block_size d \<noteq> 0 \<and> flags d AND DEV_READONLY cfg = 0
      \<and> (\<forall>n. fst (device_write_reply w (port d) 0 (page div dev_block_size d) buf n) = k)
      \<longrightarrow> returned (pager_write_page cfg d page buf w) = Some EIO)
 \<and> EIO \<in> {EIO, EDQUOT, ENOSPC}"
proof (intro conjI impI)
  assume "pager_read_page cfg d page w = Returns (e, b, l) s"
  then show "e = 0 \<or> e = EIO"
    by (auto simp: pager_read_page_def Let_def split: if_splits prod.splits)
next
  assume "pager_write_page cfg d page buf w = Returns e' s'"
  then show "e' = 0 \<or> e' = EIO \<or> (e' = EROFS \<and> flags d AND DEV_READONLY cfg \<noteq> 0 \<and> s' = (d, w))"
    by (auto simp: pager_write_page_def Let_def split: if_splits prod.splits)
next
  assume a: "k \<noteq> 0 \<and> dev_block_size d \<noteq> 0
      \<and> (\<forall>n. fst (device_read_reply w (port d) 0 (page div dev_block_size d) n) = k)"
  define n where "n = (if page + vm_page_size cfg > dev_size d then dev_size d - page else vm_page_size cfg)"
  obtain err dbuf cnt where r: "device_read_reply w (port d) 0 (page div dev_block_size d) n = (err, dbuf, cnt)"
    by (cases "device_read_reply w (port d) 0 (page div dev_block_size d) n")
  from a r have "err = k" by (metis fst_conv)
  with a r show "map_option fst (returned (pager_read_page cfg d page w)) = Some EIO"
    by (simp add: pager_read_page_def device_read_def Let_def n_def [symmetric])
next
  assume a: "k \<noteq> 0 \<and> dev_block_size d \<noteq> 0 \<and> flags d AND DEV_READONLY cfg = 0
      \<and> (\<forall>n. fst (device_write_reply w (port d) 0 (page div dev_block_size d) buf n) = k)"
  define n where "n = (if page + vm_page_size cfg > dev_size d then dev_size d - page else vm_page_size cfg)"
  obtain err written where r: "device_write_reply w (port d) 0 (page div dev_block_size d) buf n = (err, written)"
    by (cases "device_write_reply w (port d) 0 (page div dev_block_size d) buf n")
  from a r have "err = k" by (metis fst_conv)
  with a r show "returned (pager_write_page cfg d page buf w) = Some EIO"
    by (simp add: pager_write_page_def device_write_def Let_def n_def [symmetric])
next
  show "EIO \<in> {EIO, EDQUOT, ENOSPC}" by simp
qed

theorem page_io_errors_are_EIO_witness:
  "map_option fst (returned (pager_read_page ex_params ex_dev 4096 ex_err_world)) = Some EIO
 \<and> returned (pager_write_page ex_params ex_dev 4096 0x5000 ex_err_world) = Some EIO
 \<and> EIO \<noteq> 0 \<and> EIO \<noteq> 2500"
  using page_io_errors_are_EIO [of ex_params ex_dev 4096 ex_err_world 0 "\<lambda>i. 0" 0
          "(ex_dev, ex_err_world)" "0x5000" 0 "(ex_dev, ex_err_world)" 2500]
  by (simp add: ex_params_def ex_dev_def ex_world_def ex_err_world_def EIO_def)

section \<open>The callbacks only read the descriptor\<close>

text \<open>
  C10.  \<open>unlock_page\<close> and \<open>report_extent\<close> always return, \<open>read_page\<close> and \<open>write_page\<close>
  return unless they divide by a block size of 0, none of them waits on the lock, and
  whenever one returns, with success or with an error, the descriptor it leaves is the one
  it was given, field by field.
\<close>

theorem callbacks_keep_descriptor:
  "(\<exists>r w'. pager_unlock_page cfg d address w = Returns r (d, w'))
 \<and> (\<exists>r w'. pager_report_extent d w = Returns r (d, w'))
 \<and> (if dev_block_size d = 0 then pager_read_page cfg d page w = Faults
      else \<exists>r w'. pager_read_page cfg d page w = Returns r (d, w'))
 \<and> (if dev_block_size d = 0 \<and> flags d AND DEV_READONLY cfg = 0
      then pager_write_page cfg d page buf w = Faults
      else \<exists>r w'. pager_write_page cfg d page buf w = Returns r (d, w'))"
  by (auto simp: pager_unlock_page_def pager_report_extent_def pager_read_page_def pager_write_page_def
       Let_def split: prod.splits)

theorem callbacks_keep_descriptor_witness:
  "map_option fst (outcome_state (pager_unlock_page ex_params ex_dev 4096 ex_world)) = Some ex_dev
 \<and> map_option fst (outcome_state (pager_report_extent ex_dev ex_world)) = Some ex_dev
 \<and> map_option fst (outcome_state (pager_read_page ex_params ex_dev 4096 ex_world)) = Some ex_dev
 \<and> map_option fst (outcome_state (pager_write_page ex_params ex_dev 4096 0x5000 ex_world)) = Some ex_dev"
  using callbacks_keep_descriptor [of ex_params ex_dev 4096 ex_world 4096 "0x5000"]
  by (auto simp add: ex_dev_def)

section \<open>Stopping paging\<close>

text \<open>
  C2, as amended.  With \<open>nosync\<close> set, on a descriptor whose lock is free and which has a
  port bucket whenever it has a pager, \<open>dev_stop_paging\<close> calls nothing at all (the world
  is as before: no \<open>pager_shutdown\<close>, no change of caching), it never returns failure, and
  it clears the descriptor's pager, whatever the number of ports in the bucket.  Whether
  the call returns is not part of the statement.
\<close>

theorem stop_paging_nosync:
  assumes "nosync \<noteq> 0" and "\<not> lock_held (io_state d)"
    and "pager d \<noteq> None \<longrightarrow> pager_port_bucket d \<noteq> None"
  shows "outcome_state (dev_stop_paging d nosync w) =
           Some (d\<lparr>io_state := (io_state d)\<lparr>lock_held := True\<rparr>, pager := None\<rparr>, w)
       \<and> returned (dev_stop_paging d nosync w) \<noteq> Some 0"
  using assms
  by (auto simp: dev_stop_paging_def io_state_lock_def Let_def split: option.splits)

theorem stop_paging_nosync_witness:
  "map_option (pager \<circ> fst) (outcome_state (dev_stop_paging ex_mapped_dev 1 ex_idle_world)) = Some None
   \<and> map_option snd (outcome_state (dev_stop_paging ex_mapped_dev 1 ex_idle_world)) = Some ex_idle_world
   \<and> returned (dev_stop_paging ex_mapped_dev 1 ex_idle_world) \<noteq> Some 0"
  using stop_paging_nosync [of 1 ex_mapped_dev ex_idle_world]
  by (simp add: ex_mapped_dev_def ex_dev_def)

text \<open>The claim C2 as it stands (with a live endpoint the call returns failure) fails:
  with one port in the bucket the call does not return failure, and the pager is cleared.\<close>

theorem stop_paging_nosync_live_endpoint:
  "ports_count_bucket 0 ex_world1 = 1
 \<and> pager ex_mapped_dev = Some 0 \<and> pager_port_bucket ex_mapped_dev = Some 0
 \<and> returned (dev_stop_paging ex_mapped_dev 1 ex_world1) \<noteq> Some 0
 \<and> map_option (pager \<circ> fst) (outcome_state (dev_stop_paging ex_mapped_dev 1 ex_world1)) = Some None"
  by (simp add: dev_stop_paging_def io_state_lock_def Let_def ex_mapped_dev_def ex_dev_def
      ports_count_bucket_def ex_world1_def ex_world_def)

text \<open>
  C5.  The claim: with a pager, \<open>nosync\<close> clear, and a port left in the bucket after the
  second of sleep, \<open>dev_stop_paging\<close> returns failure, keeps the pager and turns caching
  back on.  The code does keep the pager and does turn caching back on for every port then
  in the bucket, but it does not return: instead of releasing the lock it takes it a second
  time (line 218), and waits for ever on the lock it holds.
\<close>

theorem stop_paging_busy_blocks:
  assumes "\<not> lock_held (io_state d)" and "pager d = Some pg" and "pager_port_bucket d = Some b"
    and "ports_count_bucket b w > 0" and "sleep_effect w (buckets w) b \<noteq> []"
  shows "\<exists>w'. dev_stop_paging d 0 w = Blocks (d\<lparr>io_state := (io_state d)\<lparr>lock_held := True\<rparr>\<rparr>, w')
          \<and> buckets w' = sleep_effect w (buckets w)
          \<and> (\<forall>p \<in> set (buckets w' b). may_cache (pagers w' p) \<and> copy (pagers w' p) = MEMORY_OBJECT_COPY_DELAY)
          \<and> trace w' = trace w @ map (\<lambda>p. ChangeAttributes p False MEMORY_OBJECT_COPY_DELAY True) (buckets w b)
                         @ Sleep 1 # map (\<lambda>p. ChangeAttributes p True MEMORY_OBJECT_COPY_DELAY False) (buckets w' b)"
  using assms
  by (simp add: dev_stop_paging_def io_state_lock_def Let_def block_cache_all enable_cache_all
      sleep_def emit_def ports_count_bucket_def)

theorem stop_paging_busy_blocks_witness:
  "returned (dev_stop_paging ex_mapped_dev 0 ex_world1) = None
   \<and> map_option (pager \<circ> fst) (outcome_state (dev_stop_paging ex_mapped_dev 0 ex_world1)) = Some (Some 0)"
  using stop_paging_busy_blocks [of ex_mapped_dev 0 0 ex_world1]
  by (auto simp add: ex_mapped_dev_def ex_dev_def ex_world1_def ex_world_def ports_count_bucket_def)

text \<open>
  C6.  The claim: with a pager, \<open>nosync\<close> clear, and no port in the bucket,
  \<open>dev_stop_paging\<close> returns success and clears the pager.  The code shuts the pager down
  and clears the descriptor's pager, but it does not return: it takes the lock a second
  time (line 218) and waits for ever on the lock it holds.
\<close>

theorem stop_paging_idle_blocks:
  assumes "\<not> lock_held (io_state d)" and "pager d = Some pg" and "pager_port_bucket d = Some b"
    and "ports_count_bucket b w = 0"
  shows "dev_stop_paging d 0 w =
           Blocks (d\<lparr>io_state := (io_state d)\<lparr>lock_held := True\<rparr>, pager := None\<rparr>, pager_shutdown pg w)"
  using assms
  by (simp add: dev_stop_paging_def io_state_lock_def Let_def)

theorem stop_paging_idle_blocks_witness:
  "returned (dev_stop_paging ex_mapped_dev 0 ex_idle_world) = None
   \<and> map_option (pager \<circ> fst) (outcome_state (dev_stop_paging ex_mapped_dev 0 ex_idle_world)) = Some None"
  using stop_paging_idle_blocks [of ex_mapped_dev 0 0 ex_idle_world]
  by (simp add: ex_mapped_dev_def ex_dev_def ex_idle_world_def ex_world1_def ex_world_def ports_count_bucket_def)

section \<open>Memory objects\<close>

text \<open>
  C8.  For a device of a non-pageable class (\<open>DEV_SERIAL\<close>), \<open>dev_get_memory_object\<close>
  fails with ENODEV and changes nothing: the descriptor is as before (no pager, no port
  bucket) and nothing is called (no bucket and no thread is made).
\<close>

theorem get_memory_object_serial:
  "dev_is d (DEV_SERIAL cfg) \<Longrightarrow>
   dev_get_memory_object cfg d w = Returns (ENODEV, None) (d, w)"
  by (simp add: dev_get_memory_object_def)

theorem get_memory_object_serial_witness:
  "dev_get_memory_object ex_params ex_serial_dev ex_world = Returns (ENODEV, None) (ex_serial_dev, ex_world)
   \<and> pager ex_serial_dev = None \<and> pager_port_bucket ex_serial_dev = None"
  using get_memory_object_serial [of ex_serial_dev ex_params ex_world]
  by (simp add: ex_params_def ex_serial_dev_def ex_dev_def dev_is_def)

text \<open>
  C9.  Two successful calls of \<open>dev_get_memory_object\<close> in a row: both descriptors name
  the same pager \<open>p\<close> and both calls hand out the same port.  If there was no pager the
  first call made \<open>p\<close>.  The second call makes none: all it does is take a reference on
  \<open>p\<close>, get its port, drop the reference and insert the send right.  The port bucket is
  the same after both calls, and over the two calls one bucket is made if the descriptor had
  none, and none otherwise.
\<close>

theorem get_memory_object_twice:
  assumes "dev_get_memory_object cfg d w = Returns (0, Some m1) (d1, w1)"
    and "dev_get_memory_object cfg d1 w1 = Returns (0, Some m2) (d2, w2)"
  shows "\<exists>p. pager d1 = Some p \<and> pager d2 = Some p \<and> m2 = m1
          \<and> (pager d = None \<longrightarrow> p = pager_count w \<and> pager_count w1 = Suc (pager_count w))
          \<and> pager_count w2 = pager_count w1
          \<and> trace w2 = trace w1 @ PortRef p # GetPort p # PortDeref p #
                          (if m1 = MACH_PORT_NULL then [] else [InsertRight m1])
          \<and> pager_port_bucket d2 = pager_port_bucket d1
          \<and> bucket_count w2 = (if pager_port_bucket d = None then Suc (bucket_count w) else bucket_count w)"
proof -
  from get_memory_object_leaves [OF assms(1)] obtain p b where
    1: "\<not> dev_is d1 (DEV_SERIAL cfg)" "\<not> lock_held (io_state d1)" "pager d1 = Some p"
       "pager_port_bucket d1 = Some b" "port_right (pagers w1 p) = m1"
       "pager d = None \<longrightarrow> p = pager_count w \<and> pager_count w1 = Suc (pager_count w)"
       "bucket_count w1 = (if pager_port_bucket d = None then Suc (bucket_count w) else bucket_count w)"
    by (elim conjE exE) (rule that)
  from get_memory_object_existing [OF 1(1,2,3,4) assms(2)] 1 show ?thesis by simp
qed

theorem get_memory_object_twice_witness:
  "dev_get_memory_object ex_params ex_dev ex_world = Returns (0, Some 100) (ex_mapped_dev, ex_world1)
   \<and> dev_get_memory_object ex_params ex_mapped_dev ex_world1 = Returns (0, Some 100) (ex_mapped_dev, ex_world2)
   \<and> pager ex_mapped_dev = Some 0
   \<and> pager_count ex_world2 = 1 \<and> bucket_count ex_world2 = 1
   \<and> trace ex_world2 = trace ex_world1 @ [PortRef 0, GetPort 0, PortDeref 0, InsertRight 100]"
  using get_memory_object_twice [OF ex_first_call ex_second_call] ex_first_call ex_second_call
  by (auto simp add: ex_mapped_dev_def ex_dev_def ex_world_def ex_world1_def ex_world2_def MACH_PORT_NULL_def)

end
